theory Spec2Isabelle
  imports Main "HOL-Library.Word"
begin

unbundle bit_operations_syntax

section \<open>BaseAuraV2: the token registry, its metadata renderer and the tier classifier\<close>

text \<open>
  The contract \<^verbatim>\<open>BaseAuraV2\<close> is embedded function by function. Solidity values keep
  their widths: an \<^verbatim>\<open>address\<close> is a 160-bit word, a \<^verbatim>\<open>uint256\<close> a 256-bit word, a
  \<^verbatim>\<open>string\<close> a list of bytes. A \<^verbatim>\<open>mapping\<close> is a total function whose value at an
  unwritten key is the zero of its type, as in storage. A call that reverts returns
  \<open>Inl\<close> of the error and no state: the state before the call stays in force.
  Names are those of the source without the leading underscore; \<open>msg_sender\<close> is
  \<^verbatim>\<open>msg.sender\<close>, passed as the first argument.
\<close>

type_synonym address = "160 word"
type_synonym uint256 = "256 word"

datatype event =
    Transfer address address uint256
  | AuraMinted address address uint256 string
  | AuraUpdated uint256 string string

text \<open>
  \<open>Revert\<close> carries the message of a failed \<^verbatim>\<open>require\<close>; \<open>Panic 17\<close> is the checked
  arithmetic overflow (code 0x11) of Solidity 0.8; the other constructors are the custom
  errors of the imported token and access-control contracts.
\<close>

datatype error =
    Revert string
  | Panic nat
  | ERC721NonexistentToken uint256
  | ERC721InvalidReceiver address
  | ERC721InvalidSender address
  | OwnableUnauthorizedAccount address
  | StringsInsufficientHexLength uint256 nat

text \<open>
  The storage of the contract. The fields \<open>owners\<close> (the token ledger \<^verbatim>\<open>_owners\<close> of
  ERC721) and \<open>owner\<close> (the administrator \<^verbatim>\<open>_owner\<close> of Ownable) are inherited;
  \<open>events\<close> is the log of emitted events, oldest first. Balances and approvals of the
  ledger are read by none of the functions below and are left out, and so are the
  inherited functions that transfer a token or the administration: they write only
  \<open>owners\<close>, never removing a token, and \<open>owner\<close>.
\<close>

record state =
  nextTokenId :: uint256
  targetAddressToTokenId :: "address \<Rightarrow> uint256"
  targetAddressMinted :: "address \<Rightarrow> bool"
  tokenToTargetAddress :: "uint256 \<Rightarrow> address"
  tokenAuras :: "uint256 \<Rightarrow> string"
  baseImageURI :: string
  owners :: "uint256 \<Rightarrow> address"
  owner :: address
  events :: "event list"

definition FIRE_WHALE :: string where "FIRE_WHALE = ''fire''"
definition WAVE_RIDER :: string where "WAVE_RIDER = ''water''"
definition TIDE_WATCHER :: string where "TIDE_WATCHER = ''tide''"
definition ROCK_HOLDER :: string where "ROCK_HOLDER = ''rock''"

text \<open>
  The constructor: an empty registry administered by the deployer. The log records the
  events of the token ledger and of the contract itself, not those of Ownable.
\<close>

definition constructor :: "address \<Rightarrow> string \<Rightarrow> state" where
  "constructor msg_sender baseImageURI0 =
     \<lparr> nextTokenId = 0,
       targetAddressToTokenId = (\<lambda>_. 0),
       targetAddressMinted = (\<lambda>_. False),
       tokenToTargetAddress = (\<lambda>_. 0),
       tokenAuras = (\<lambda>_. []),
       baseImageURI = baseImageURI0,
       owners = (\<lambda>_. 0),
       owner = msg_sender,
       events = [] \<rparr>"

subsection \<open>Internal pure functions\<close>

text \<open>
  The source compares the keccak256 hashes of two strings. The hash is taken as
  collision-free, so the comparison is equality of the strings.
\<close>

definition isValidAura :: "string \<Rightarrow> bool" where
  "isValidAura aura =
     (aura = FIRE_WHALE \<or> aura = WAVE_RIDER \<or> aura = TIDE_WATCHER \<or> aura = ROCK_HOLDER)"

definition getAuraName :: "string \<Rightarrow> string" where
  "getAuraName aura =
     (if aura = FIRE_WHALE then ''Fire Whale''
      else if aura = WAVE_RIDER then ''Wave Rider''
      else if aura = TIDE_WATCHER then ''Tide Watcher''
      else if aura = ROCK_HOLDER then ''Rock Holder''
      else ''Unknown'')"

definition getAuraDescription :: "string \<Rightarrow> string" where
  "getAuraDescription aura =
     (if aura = FIRE_WHALE then ''DeFi Power User - 500+ transactions on Base''
      else if aura = WAVE_RIDER then ''Active Explorer - 100-499 transactions on Base''
      else if aura = TIDE_WATCHER then ''Getting Started - 10-99 transactions on Base''
      else if aura = ROCK_HOLDER then ''Diamond Hands HODLer - 1-9 transactions on Base''
      else ''Base Aura NFT'')"

definition getAuraTier :: "string \<Rightarrow> string" where
  "getAuraTier aura =
     (if aura = FIRE_WHALE then ''Legendary''
      else if aura = WAVE_RIDER then ''Rare''
      else if aura = TIDE_WATCHER then ''Uncommon''
      else if aura = ROCK_HOLDER then ''Common''
      else ''Unknown'')"

subsection \<open>The imported string and encoding helpers\<close>

text \<open>
  \<^verbatim>\<open>Strings.toString\<close>, \<^verbatim>\<open>Strings.toHexString\<close> and \<^verbatim>\<open>Base64.encode\<close> come from the
  OpenZeppelin library that the contract imports; the library is not part of the
  repository. They are modelled from their published behaviour: the decimal numeral
  without leading zeros, the \<^verbatim>\<open>0x\<close>-prefixed lower-case numeral of exactly
  \<open>2 * length\<close> digits (a revert when the value needs more), and the Base64 alphabet
  of RFC 4648 with \<^verbatim>\<open>=\<close> padding.
\<close>

definition HEX_DIGITS :: string where
  "HEX_DIGITS = ''0123456789abcdef''"

fun decimal :: "nat \<Rightarrow> string" where
  "decimal n =
     (if n < 10 then [HEX_DIGITS ! n] else decimal (n div 10) @ [HEX_DIGITS ! (n mod 10)])"

definition toString :: "uint256 \<Rightarrow> string" where
  "toString v = decimal (unat v)"

primrec hexDigits :: "nat \<Rightarrow> uint256 \<Rightarrow> string" where
  "hexDigits 0 v = []"
| "hexDigits (Suc n) v = hexDigits n (drop_bit 4 v) @ [HEX_DIGITS ! unat (v AND 15)]"

definition toHexString :: "uint256 \<Rightarrow> nat \<Rightarrow> error + string" where
  "toHexString v len =
     (if drop_bit (4 * (2 * len)) v \<noteq> 0 then Inl (StringsInsufficientHexLength v len)
      else Inr (''0x'' @ hexDigits (2 * len) v))"

definition TABLE :: string where
  "TABLE = ''ABCDEFGHIJKLMNOPQRSTUVWXYZabcdefghijklmnopqrstuvwxyz0123456789+/''"

fun Base64_encode :: "string \<Rightarrow> string" where
  "Base64_encode [] = []"
| "Base64_encode [a] =
     (let x = (of_char a :: nat) in
      [TABLE ! (x div 4), TABLE ! ((x mod 4) * 16), CHR ''='', CHR ''=''])"
| "Base64_encode [a, b] =
     (let x = (of_char a :: nat); y = (of_char b :: nat) in
      [TABLE ! (x div 4), TABLE ! ((x mod 4) * 16 + y div 16),
       TABLE ! ((y mod 16) * 4), CHR ''=''])"
| "Base64_encode (a # b # c # rest) =
     (let x = (of_char a :: nat); y = (of_char b :: nat); z = (of_char c :: nat) in
      [TABLE ! (x div 4), TABLE ! ((x mod 4) * 16 + y div 16),
       TABLE ! ((y mod 16) * 4 + z div 64), TABLE ! (z mod 64)] @ Base64_encode rest)"

subsection \<open>The inherited ledger and access control\<close>

text \<open>
  \<^verbatim>\<open>ownerOf\<close>, \<^verbatim>\<open>_mint\<close> and \<^verbatim>\<open>onlyOwner\<close> belong to the imported ERC721 and Ownable
  contracts (OpenZeppelin 5, as the constructor call \<^verbatim>\<open>Ownable(msg.sender)\<close> shows).
  A token exists when its entry in the ledger is not the zero address; \<^verbatim>\<open>ownerOf\<close>
  reverts for a token that does not exist; \<^verbatim>\<open>_mint\<close> refuses the zero address and an
  existing token, records the owner and emits \<^verbatim>\<open>Transfer\<close>.
\<close>

definition ownerOf :: "uint256 \<Rightarrow> state \<Rightarrow> error + address" where
  "ownerOf tokenId s =
     (if owners s tokenId = 0 then Inl (ERC721NonexistentToken tokenId)
      else Inr (owners s tokenId))"

definition ERC721_mint :: "address \<Rightarrow> uint256 \<Rightarrow> state \<Rightarrow> error + state" where
  "ERC721_mint to tokenId s =
     (if to = 0 then Inl (ERC721InvalidReceiver 0)
      else if owners s tokenId \<noteq> 0 then Inl (ERC721InvalidSender 0)
      else Inr (s\<lparr>owners := (owners s)(tokenId := to),
                  events := events s @ [Transfer 0 to tokenId]\<rparr>))"

subsection \<open>Calls and the receiver hook\<close>

text \<open>
  \<open>call\<close> lists the external functions that the contract declares, with their
  arguments.

  \<^verbatim>\<open>_safeMint(msg.sender, tokenId)\<close> hands control to the caller: when the caller is a
  contract, its \<^verbatim>\<open>onERC721Received\<close> hook runs after the ledger entry is written and
  before \<^verbatim>\<open>mint\<close> writes its own mappings. What the hook does is outside the
  repository, so it is an argument of the call: \<open>NoCode\<close> is a caller without code (no
  hook runs); \<open>OnERC721Received script ans\<close> is a contract whose hook sends the calls
  of \<open>script\<close> to the registry, each with its sender, a reverting one caught by the
  hook, and then answers with \<open>ans\<close>: it returns the selector (\<open>Accepts\<close>), it
  returns another value or reverts without data (\<open>Refuses\<close>), or it reverts with data of
  its own (\<open>RevertsWith\<close>). The ledger turns a refusal into
  \<^verbatim>\<open>ERC721InvalidReceiver\<close> and re-raises the hook's own data as they are.
\<close>

datatype answer =
    Accepts
  | Refuses
  | RevertsWith error

datatype call =
    Mint address string receiver
  | UpdateAura uint256 string
  | SetBaseImageURI string
  | GetTokenByTargetAddress address
  | GetTargetAddress uint256
  | HasMinted address
  | GetAura uint256
  | TokenURI uint256
and receiver =
    NoCode
  | OnERC721Received "(address \<times> call) list" answer

text \<open>What a call returns to its caller; \<open>RNone\<close> is the empty return data.\<close>

datatype retdata =
    RNone
  | RUint uint256
  | RAddress address
  | RBool bool
  | RString string

subsection \<open>The external functions without an outgoing call\<close>

definition updateAura :: "address \<Rightarrow> uint256 \<Rightarrow> string \<Rightarrow> state \<Rightarrow> error + state" where
  "updateAura msg_sender tokenId newAura s =
     (case ownerOf tokenId s of
        Inl e \<Rightarrow> Inl e
      | Inr tokenOwner \<Rightarrow>
          if tokenOwner \<noteq> msg_sender then Inl (Revert ''Not the token owner'')
          else if \<not> isValidAura newAura then Inl (Revert ''Invalid aura type'')
          else
            (let oldAura = tokenAuras s tokenId in
             Inr (s\<lparr>tokenAuras := (tokenAuras s)(tokenId := newAura),
                    events := events s @ [AuraUpdated tokenId oldAura newAura]\<rparr>)))"

definition getTokenByTargetAddress :: "address \<Rightarrow> state \<Rightarrow> error + uint256" where
  "getTokenByTargetAddress targetAddress s =
     (if \<not> targetAddressMinted s targetAddress then Inl (Revert ''Address has no Aura NFT'')
      else Inr (targetAddressToTokenId s targetAddress))"

definition getTargetAddress :: "uint256 \<Rightarrow> state \<Rightarrow> error + address" where
  "getTargetAddress tokenId s =
     (if \<not> tokenId < nextTokenId s then Inl (Revert ''Token does not exist'')
      else Inr (tokenToTargetAddress s tokenId))"

definition hasMinted :: "address \<Rightarrow> state \<Rightarrow> bool" where
  "hasMinted targetAddress s = targetAddressMinted s targetAddress"

definition getAura :: "uint256 \<Rightarrow> state \<Rightarrow> error + string" where
  "getAura tokenId s =
     (if \<not> tokenId < nextTokenId s then Inl (Revert ''Token does not exist'')
      else Inr (tokenAuras s tokenId))"

text \<open>
  The document that \<^verbatim>\<open>tokenURI\<close> assembles with \<^verbatim>\<open>abi.encodePacked\<close> before it is
  Base64-encoded, split where the image reference is inserted.
\<close>

definition jsonHead :: "uint256 \<Rightarrow> string \<Rightarrow> string" where
  \<open>jsonHead tokenId auraType =
     ''{"name": "Base Aura #'' @ toString tokenId @ '' - '' @ getAuraName auraType @
     ''", "description": "'' @ getAuraDescription auraType @
     ''", "image": "''\<close>

definition jsonTail :: "string \<Rightarrow> string \<Rightarrow> string" where
  \<open>jsonTail auraType targetHex =
     ''", "attributes": [{"trait_type": "Aura Type", "value": "'' @ getAuraName auraType @
     ''"}, {"trait_type": "Tier", "value": "'' @ getAuraTier auraType @
     ''"}, {"trait_type": "Target Address", "value": "'' @ targetHex @
     ''"}]}''\<close>

definition tokenURI :: "uint256 \<Rightarrow> state \<Rightarrow> error + string" where
  "tokenURI tokenId s =
     (if \<not> tokenId < nextTokenId s then Inl (Revert ''Token does not exist'')
      else
        (let auraType = tokenAuras s tokenId;
             imageUrl = baseImageURI s @ auraType @ ''.png'';
             targetAddr = tokenToTargetAddress s tokenId
         in case toHexString (ucast targetAddr) 20 of
              Inl e \<Rightarrow> Inl e
            | Inr targetHex \<Rightarrow>
                Inr (''data:application/json;base64,'' @
                     Base64_encode (jsonHead tokenId auraType @ imageUrl @
                                    jsonTail auraType targetHex))))"

definition setBaseImageURI :: "address \<Rightarrow> string \<Rightarrow> state \<Rightarrow> error + state" where
  "setBaseImageURI msg_sender newBaseURI s =
     (if owner s \<noteq> msg_sender then Inl (OwnableUnauthorizedAccount msg_sender)
      else Inr (s\<lparr>baseImageURI := newBaseURI\<rparr>))"

subsection \<open>mint, the dispatcher and sequences of calls\<close>

text \<open>
  \<open>mint\<close> follows the source line by line: the two \<^verbatim>\<open>require\<close>s, the checked
  post-increment of the counter, \<^verbatim>\<open>_safeMint\<close> (ledger entry, then the receiver
  hook), the four mapping writes and the event. \<open>exec\<close> dispatches a call and pairs
  the new state with the return data; \<open>run\<close> sends calls one after the other, a
  reverted call leaving the state as it was. The hook of a receiver runs its script
  with \<open>run\<close>, on the state \<open>mint\<close> has reached at that point.
\<close>

fun mint :: "address \<Rightarrow> address \<Rightarrow> string \<Rightarrow> receiver \<Rightarrow> state \<Rightarrow> error + state"
and checkOnERC721Received :: "address \<Rightarrow> receiver \<Rightarrow> state \<Rightarrow> error + state"
and exec :: "address \<Rightarrow> call \<Rightarrow> state \<Rightarrow> error + retdata \<times> state"
and run :: "(address \<times> call) list \<Rightarrow> state \<Rightarrow> state" where
  "mint msg_sender targetAddress auraType rcv s =
     (if targetAddressMinted s targetAddress
      then Inl (Revert ''This address already has an Aura NFT'')
      else if \<not> isValidAura auraType then Inl (Revert ''Invalid aura type'')
      else if nextTokenId s = - 1 then Inl (Panic 17)
      else
        (case ERC721_mint msg_sender (nextTokenId s) (s\<lparr>nextTokenId := nextTokenId s + 1\<rparr>) of
           Inl e \<Rightarrow> Inl e
         | Inr s1 \<Rightarrow>
             (case checkOnERC721Received msg_sender rcv s1 of
                Inl e \<Rightarrow> Inl e
              | Inr s2 \<Rightarrow>
                  Inr (s2\<lparr>tokenAuras := (tokenAuras s2)(nextTokenId s := auraType),
                         targetAddressToTokenId :=
                           (targetAddressToTokenId s2)(targetAddress := nextTokenId s),
                         targetAddressMinted := (targetAddressMinted s2)(targetAddress := True),
                         tokenToTargetAddress :=
                           (tokenToTargetAddress s2)(nextTokenId s := targetAddress),
                         events := events s2 @
                           [AuraMinted msg_sender targetAddress (nextTokenId s) auraType]\<rparr>))))"
| "checkOnERC721Received to NoCode s = Inr s"
| "checkOnERC721Received to (OnERC721Received script ans) s =
     (case ans of
        Accepts \<Rightarrow> Inr (run script s)
      | Refuses \<Rightarrow> Inl (ERC721InvalidReceiver to)
      | RevertsWith e \<Rightarrow> Inl e)"
| "exec msg_sender (Mint targetAddress auraType rcv) s =
     (case mint msg_sender targetAddress auraType rcv s of
        Inl e \<Rightarrow> Inl e | Inr s' \<Rightarrow> Inr (RNone, s'))"
| "exec msg_sender (UpdateAura tokenId newAura) s =
     (case updateAura msg_sender tokenId newAura s of
        Inl e \<Rightarrow> Inl e | Inr s' \<Rightarrow> Inr (RNone, s'))"
| "exec msg_sender (SetBaseImageURI newBaseURI) s =
     (case setBaseImageURI msg_sender newBaseURI s of
        Inl e \<Rightarrow> Inl e | Inr s' \<Rightarrow> Inr (RNone, s'))"
| "exec msg_sender (GetTokenByTargetAddress targetAddress) s =
     (case getTokenByTargetAddress targetAddress s of
        Inl e \<Rightarrow> Inl e | Inr v \<Rightarrow> Inr (RUint v, s))"
| "exec msg_sender (GetTargetAddress tokenId) s =
     (case getTargetAddress tokenId s of
        Inl e \<Rightarrow> Inl e | Inr v \<Rightarrow> Inr (RAddress v, s))"
| "exec msg_sender (HasMinted targetAddress) s = Inr (RBool (hasMinted targetAddress s), s)"
| "exec msg_sender (GetAura tokenId) s =
     (case getAura tokenId s of Inl e \<Rightarrow> Inl e | Inr v \<Rightarrow> Inr (RString v, s))"
| "exec msg_sender (TokenURI tokenId) s =
     (case tokenURI tokenId s of Inl e \<Rightarrow> Inl e | Inr v \<Rightarrow> Inr (RString v, s))"
| "run [] s = s"
| "run ((a, c) # cs) s =
     run cs (case exec a c s of Inl e \<Rightarrow> s | Inr (r, s') \<Rightarrow> s')"

text \<open>
  One transaction: the outcome (error or return data) and the state after it.
\<close>

definition transact :: "address \<Rightarrow> call \<Rightarrow> state \<Rightarrow> (error + retdata) \<times> state" where
  "transact msg_sender c s =
     (case exec msg_sender c s of Inl e \<Rightarrow> (Inl e, s) | Inr (r, s') \<Rightarrow> (Inr r, s'))"

subsection \<open>The tier classifier of the client\<close>

text \<open>\<^verbatim>\<open>getAuraType\<close> of the client; \<^verbatim>\<open>null\<close> is \<open>None\<close>.\<close>

definition getAuraType :: "int \<Rightarrow> string option" where
  "getAuraType txCount =
     (if txCount \<ge> 500 then Some ''fire''
      else if txCount \<ge> 100 then Some ''water''
      else if txCount \<ge> 10 then Some ''tide''
      else if txCount \<ge> 1 then Some ''rock''
      else None)"

subsection \<open>Notions used in the statements\<close>


text \<open>
  \<open>latest t evs l\<close> is the label of token \<open>t\<close> after the events \<open>evs\<close>, when it was
  \<open>l\<close> before them: the new label of the last \<^verbatim>\<open>AuraUpdated\<close> event for \<open>t\<close>, and \<open>l\<close>
  when there is none. Only \<open>updateAura\<close> appends such an event to the log, one for
  each successful call, with the label passed as the new label.
\<close>

fun latest :: "uint256 \<Rightarrow> event list \<Rightarrow> string \<Rightarrow> string" where
  "latest t [] l = l"
| "latest t (AuraUpdated t' oldAura newAura # evs) l =
     latest t evs (if t' = t then newAura else l)"
| "latest t (e # evs) l = latest t evs l"

text \<open>Minted targets stay minted and keep their token.\<close>

definition minted_kept :: "state \<Rightarrow> state \<Rightarrow> bool" where
  "minted_kept s s' =
     (\<forall>X. targetAddressMinted s X \<longrightarrow>
            targetAddressMinted s' X \<and>
            targetAddressToTokenId s' X = targetAddressToTokenId s X)"

text \<open>The ledger holds an owner for exactly the token IDs below the counter.\<close>

definition ledger_inv :: "state \<Rightarrow> bool" where
  "ledger_inv s = (\<forall>t. (owners s t \<noteq> 0) = (t < nextTokenId s))"

text \<open>
  What a later state keeps of an earlier one when only calls of \<open>call\<close> lie between
  them: the counter does not decrease, an owned token keeps its owner, a token below
  the earlier counter keeps its target address, the log is extended, and the label of a
  token below the earlier counter is the one the added events give.
\<close>

definition later :: "state \<Rightarrow> state \<Rightarrow> bool" where
  "later s s' =
     (nextTokenId s \<le> nextTokenId s' \<and>
      (\<forall>t. owners s t \<noteq> 0 \<longrightarrow> owners s' t = owners s t) \<and>
      (\<forall>t. t < nextTokenId s \<longrightarrow> tokenToTargetAddress s' t = tokenToTargetAddress s t) \<and>
      (\<exists>evs. events s' = events s @ evs \<and>
         (\<forall>t. t < nextTokenId s \<longrightarrow> tokenAuras s' t = latest t evs (tokenAuras s t))))"



text \<open>
  A call is \<open>plain\<close> when it is not a \<open>mint\<close> whose receiver hook calls back into the
  registry. \<open>registry_inv\<close> says that the two mappings between target addresses and
  token IDs are inverse to each other on the minted targets and the tokens below the
  counter, so that a target is marked as minted exactly when a token below the counter
  carries it.
\<close>

fun plain :: "call \<Rightarrow> bool" where
  "plain (Mint targetAddress auraType (OnERC721Received script ans)) = (script = [])"
| "plain c = True"

definition registry_inv :: "state \<Rightarrow> bool" where
  "registry_inv s =
     ((\<forall>X. targetAddressMinted s X \<longrightarrow>
            targetAddressToTokenId s X < nextTokenId s \<and>
            tokenToTargetAddress s (targetAddressToTokenId s X) = X) \<and>
      (\<forall>t. t < nextTokenId s \<longrightarrow>
            targetAddressMinted s (tokenToTargetAddress s t) \<and>
            targetAddressToTokenId s (tokenToTargetAddress s t) = t))"

text \<open>
  An example registry: deployed by account 9 with image base \<^verbatim>\<open>https://x/\<close>, after
  account 5, which has no code, minted a \<^verbatim>\<open>fire\<close> token for target address 1.
\<close>

definition one_minted :: state where
  "one_minted = run [(5, Mint 1 ''fire'' NoCode)] (constructor 9 ''https://x/'')"

text \<open>
  The registry after one transaction of a contract at address 5 that mints for target 7
  and whose hook, called by \<^verbatim>\<open>_safeMint\<close> for the first token, mints for target 7
  again; called for the second token, the hook makes no further call. It accepts both
  tokens.
\<close>

definition reentered :: state where
  "reentered =
     run [(5, Mint 7 ''fire''
                (OnERC721Received [(5, Mint 7 ''water'' (OnERC721Received [] Accepts))]
                   Accepts))]
       (constructor 9 ''https://x/'')"

text \<open>
  The registry after one transaction of a contract at address 5 that mints a
  \<^verbatim>\<open>fire\<close> token for target 1 and whose hook, called by \<^verbatim>\<open>_safeMint\<close>, sets the label
  of the new token 0 to \<^verbatim>\<open>rock\<close> with \<open>updateAura\<close> and accepts the token.
\<close>

definition hooked :: state where
  "hooked =
     run [(5, Mint 1 ''fire'' (OnERC721Received [(5, UpdateAura 0 ''rock'')] Accepts))]
       (constructor 9 ''https://x/'')"

section \<open>Basic facts\<close>

declare mint.simps [simp del]
declare Base64_encode.simps [simp del]

lemmas aura_defs =
  isValidAura_def FIRE_WHALE_def WAVE_RIDER_def TIDE_WATCHER_def ROCK_HOLDER_def


lemma word_less_inc: "n \<noteq> - 1 \<Longrightarrow> (t < n + 1) = (t \<le> n)" for n t :: "'a::len word"
  using inc_less_eq_iff verit_comp_simplify1(3) by auto

lemma mint_cases:
  assumes "mint a T L rcv s = Inr s'"
  obtains s1 s2 where
    "\<not> targetAddressMinted s T" "isValidAura L" "nextTokenId s \<noteq> - 1"
    "ERC721_mint a (nextTokenId s) (s\<lparr>nextTokenId := nextTokenId s + 1\<rparr>) = Inr s1"
    "checkOnERC721Received a rcv s1 = Inr s2"
    "s' = s2\<lparr>tokenAuras := (tokenAuras s2)(nextTokenId s := L),
             targetAddressToTokenId := (targetAddressToTokenId s2)(T := nextTokenId s),
             targetAddressMinted := (targetAddressMinted s2)(T := True),
             tokenToTargetAddress := (tokenToTargetAddress s2)(nextTokenId s := T),
             events := events s2 @ [AuraMinted a T (nextTokenId s) L]\<rparr>"
  using assms by (auto simp: mint.simps split: if_splits sum.splits)


lemma exec_preserves:
  assumes refl: "\<And>s. R s s"
    and trans: "\<And>s1 s2 s3. R s1 s2 \<Longrightarrow> R s2 s3 \<Longrightarrow> R s1 s3"
    and mint_step: "\<And>a T L s s1 s2.
          \<lbrakk>\<not> targetAddressMinted s T; isValidAura L; nextTokenId s \<noteq> - 1;
           ERC721_mint a (nextTokenId s) (s\<lparr>nextTokenId := nextTokenId s + 1\<rparr>) = Inr s1;
           R s1 s2\<rbrakk>
          \<Longrightarrow> R s (s2\<lparr>tokenAuras := (tokenAuras s2)(nextTokenId s := L),
             targetAddressToTokenId := (targetAddressToTokenId s2)(T := nextTokenId s),
             targetAddressMinted := (targetAddressMinted s2)(T := True),
             tokenToTargetAddress := (tokenToTargetAddress s2)(nextTokenId s := T),
             events := events s2 @ [AuraMinted a T (nextTokenId s) L]\<rparr>)"
    and upd: "\<And>a t L s s'. updateAura a t L s = Inr s' \<Longrightarrow> R s s'"
    and base: "\<And>a b s s'. setBaseImageURI a b s = Inr s' \<Longrightarrow> R s s'"
  shows "mint a T L rcv s = Inr s' \<Longrightarrow> R s s'"
    and "checkOnERC721Received a rcv s = Inr s' \<Longrightarrow> R s s'"
    and "exec a c s = Inr (x, s') \<Longrightarrow> R s s'"
    and "R s (run cs s)"
proof (induction a T L rcv s and a rcv s and a c s and cs s
       arbitrary: s' and s' and x s' and 
       rule: mint_checkOnERC721Received_exec_run.induct)
  case (1 msg_sender targetAddress auraType rcv s)
  from "1.prems" show ?case
  proof (cases rule: mint_cases)
    case (1 s1 s2)
    with "1.IH" [of s1 s2] have "R s1 s2" by simp
    with 1 show ?thesis using mint_step by blast
  qed
next
  case (2 to s)
  then show ?case by (simp add: refl)
next
  case (3 to script ans s)
  then show ?case by (auto split: answer.splits)
next
  case (4 msg_sender targetAddress auraType rcv s)
  then show ?case by (auto split: sum.splits)
next
  case (5 msg_sender tokenId newAura s)
  then show ?case by (auto split: sum.splits intro: upd)
next
  case (6 msg_sender newBaseURI s)
  then show ?case by (auto split: sum.splits intro: base)
next
  case (7 msg_sender targetAddress s)
  then show ?case by (auto split: sum.splits intro: refl)
next
  case (8 msg_sender tokenId s)
  then show ?case by (auto split: sum.splits intro: refl)
next
  case (9 msg_sender targetAddress s)
  then show ?case by (auto split: sum.splits intro: refl)
next
  case (10 msg_sender tokenId s)
  then show ?case by (auto split: sum.splits intro: refl)
next
  case (11 msg_sender tokenId s)
  then show ?case by (auto split: sum.splits intro: refl)
next
  case (12 s)
  then show ?case by (simp add: refl)
next
  case (13 a c cs s)
  show ?case
  proof (cases "exec a c s")
    case (Inl e)
    with 13 show ?thesis by simp
  next
    case (Inr p)
    obtain r s1 where p: "p = (r, s1)" by (cases p)
    with Inr 13 have "R s s1" "R s1 (run cs s1)" by auto
    with Inr p show ?thesis using trans by auto
  qed
qed


lemma hex_fits: "drop_bit 160 (ucast (a :: address) :: uint256) = 0"
  by (rule bit_eqI) (auto simp add: bit_simps dest: bit_imp_le_length)

lemma ERC721_mint_Inr:
  "ERC721_mint a t s = Inr s1 \<Longrightarrow>
     a \<noteq> 0 \<and> owners s t = 0 \<and>
     s1 = s\<lparr>owners := (owners s)(t := a), events := events s @ [Transfer 0 a t]\<rparr>"
  by (auto simp: ERC721_mint_def split: if_splits)

lemma updateAura_Inr:
  "updateAura a t L s = Inr s' \<Longrightarrow>
     owners s t = a \<and> a \<noteq> 0 \<and> isValidAura L \<and>
     s' = s\<lparr>tokenAuras := (tokenAuras s)(t := L),
             events := events s @ [AuraUpdated t (tokenAuras s t) L]\<rparr>"
  by (auto simp: updateAura_def ownerOf_def split: if_splits sum.splits)

lemma setBaseImageURI_Inr:
  "setBaseImageURI a b s = Inr s' \<Longrightarrow> owner s = a \<and> s' = s\<lparr>baseImageURI := b\<rparr>"
  by (auto simp: setBaseImageURI_def split: if_splits)


lemma minted_kept_exec:
  assumes "exec a c s = Inr (x, s')" shows "minted_kept s s'"
  by (rule exec_preserves(3) [where R = minted_kept, OF _ _ _ _ _ assms])
     (auto simp: minted_kept_def dest!: ERC721_mint_Inr updateAura_Inr setBaseImageURI_Inr)

lemma minted_kept_run: "minted_kept s (run cs s)"
  by (rule exec_preserves(4))
     (auto simp: minted_kept_def dest!: ERC721_mint_Inr updateAura_Inr setBaseImageURI_Inr)

lemma ledger_inv_ERC721_mint:
  assumes "ledger_inv s" and "nextTokenId s \<noteq> - 1"
    and "ERC721_mint a (nextTokenId s) (s\<lparr>nextTokenId := nextTokenId s + 1\<rparr>) = Inr s1"
  shows "ledger_inv s1"
proof -
  from assms(3) have s1: "s1 = s\<lparr>nextTokenId := nextTokenId s + 1,
      owners := (owners s)(nextTokenId s := a), events := events s @ [Transfer 0 a (nextTokenId s)]\<rparr>"
    and a: "a \<noteq> 0"
    by (auto dest!: ERC721_mint_Inr)
  have "(owners s1 t \<noteq> 0) = (t < nextTokenId s1)" for t
  proof (cases "t = nextTokenId s")
    case True
    with a assms(2) show ?thesis by (simp add: s1 word_less_inc)
  next
    case False
    have "(t < nextTokenId s + 1) = (t < nextTokenId s)"
      using False assms(2) by (simp add: word_less_inc word_le_less_eq)
    with False assms(1) show ?thesis
      by (simp add: s1 ledger_inv_def)
  qed
  then show ?thesis by (simp add: ledger_inv_def)
qed

lemma ledger_inv_mint_step:
  assumes "nextTokenId s \<noteq> - 1"
    and "ERC721_mint a (nextTokenId s) (s\<lparr>nextTokenId := nextTokenId s + 1\<rparr>) = Inr s1"
    and "ledger_inv s1 \<longrightarrow> ledger_inv s2"
  shows "ledger_inv s \<longrightarrow> ledger_inv (s2\<lparr>tokenAuras := (tokenAuras s2)(nextTokenId s := L),
             targetAddressToTokenId := (targetAddressToTokenId s2)(T := nextTokenId s),
             targetAddressMinted := (targetAddressMinted s2)(T := True),
             tokenToTargetAddress := (tokenToTargetAddress s2)(nextTokenId s := T),
             events := events s2 @ [AuraMinted a T (nextTokenId s) L]\<rparr>)"
proof
  assume "ledger_inv s"
  then have "ledger_inv s1"
    using assms(1,2) by (rule ledger_inv_ERC721_mint)
  with assms(3) have "ledger_inv s2" by simp
  then show "ledger_inv (s2\<lparr>tokenAuras := (tokenAuras s2)(nextTokenId s := L),
             targetAddressToTokenId := (targetAddressToTokenId s2)(T := nextTokenId s),
             targetAddressMinted := (targetAddressMinted s2)(T := True),
             tokenToTargetAddress := (tokenToTargetAddress s2)(nextTokenId s := T),
             events := events s2 @ [AuraMinted a T (nextTokenId s) L]\<rparr>)"
    by (simp add: ledger_inv_def)
qed

lemma ledger_inv_updateAura:
  assumes "updateAura a t L s = Inr s'"
  shows "ledger_inv s \<longrightarrow> ledger_inv s'"
proof -
  from assms have "s' = s\<lparr>tokenAuras := (tokenAuras s)(t := L),
             events := events s @ [AuraUpdated t (tokenAuras s t) L]\<rparr>"
    by (simp add: updateAura_Inr)
  then show ?thesis by (simp add: ledger_inv_def)
qed

lemma ledger_inv_setBaseImageURI:
  assumes "setBaseImageURI a b s = Inr s'"
  shows "ledger_inv s \<longrightarrow> ledger_inv s'"
proof -
  from assms have "s' = s\<lparr>baseImageURI := b\<rparr>"
    by (simp add: setBaseImageURI_Inr)
  then show ?thesis by (simp add: ledger_inv_def)
qed

lemma ledger_inv_run: "ledger_inv s \<Longrightarrow> ledger_inv (run cs s)"
proof -
  have "ledger_inv s \<longrightarrow> ledger_inv (run cs s)"
    apply (rule exec_preserves(4) [where R = "\<lambda>s s'. ledger_inv s \<longrightarrow> ledger_inv s'"])
        apply simp
       apply simp
      apply (rule ledger_inv_mint_step; assumption)
     apply (erule ledger_inv_updateAura)
    apply (erule ledger_inv_setBaseImageURI)
    done
  then show "ledger_inv s \<Longrightarrow> ledger_inv (run cs s)" by simp
qed


lemma ledger_inv_constructor: "ledger_inv (constructor d b)"
  by (simp add: ledger_inv_def constructor_def)

lemma latest_append: "latest t (xs @ ys) l = latest t ys (latest t xs l)"
proof (induction xs arbitrary: l)
  case Nil
  show ?case by simp
next
  case (Cons e xs)
  show ?case by (cases e) (simp_all add: Cons.IH)
qed

lemma later_refl: "later s s"
  by (simp add: later_def)

lemma later_trans:
  assumes "later s1 s2" and "later s2 s3"
  shows "later s1 s3"
proof -
  from assms(1) obtain evs where
    n1: "nextTokenId s1 \<le> nextTokenId s2"
    and o1: "\<And>t. owners s1 t \<noteq> 0 \<Longrightarrow> owners s2 t = owners s1 t"
    and t1: "\<And>t. t < nextTokenId s1 \<Longrightarrow> tokenToTargetAddress s2 t = tokenToTargetAddress s1 t"
    and e1: "events s2 = events s1 @ evs"
    and a1: "\<And>t. t < nextTokenId s1 \<Longrightarrow> tokenAuras s2 t = latest t evs (tokenAuras s1 t)"
    unfolding later_def by blast
  from assms(2) obtain evs' where
    n2: "nextTokenId s2 \<le> nextTokenId s3"
    and o2: "\<And>t. owners s2 t \<noteq> 0 \<Longrightarrow> owners s3 t = owners s2 t"
    and t2: "\<And>t. t < nextTokenId s2 \<Longrightarrow> tokenToTargetAddress s3 t = tokenToTargetAddress s2 t"
    and e2: "events s3 = events s2 @ evs'"
    and a2: "\<And>t. t < nextTokenId s2 \<Longrightarrow> tokenAuras s3 t = latest t evs' (tokenAuras s2 t)"
    unfolding later_def by blast
  have lt: "t < nextTokenId s1 \<Longrightarrow> t < nextTokenId s2" for t
    using n1 by (rule order_less_le_trans [rotated])
  have "nextTokenId s1 \<le> nextTokenId s3"
    using n1 n2 by (rule order_trans)
  moreover have "\<forall>t. owners s1 t \<noteq> 0 \<longrightarrow> owners s3 t = owners s1 t"
    using o1 o2 by metis
  moreover have "\<forall>t. t < nextTokenId s1 \<longrightarrow> tokenToTargetAddress s3 t = tokenToTargetAddress s1 t"
    using t1 t2 lt by simp
  moreover have "events s3 = events s1 @ (evs @ evs')"
    using e1 e2 by simp
  moreover have "\<forall>t. t < nextTokenId s1 \<longrightarrow> tokenAuras s3 t = latest t (evs @ evs') (tokenAuras s1 t)"
    using a1 a2 lt by (simp add: latest_append)
  ultimately show ?thesis
    unfolding later_def by blast
qed

lemma word_le_inc: "n \<noteq> - 1 \<Longrightarrow> n \<le> n + 1" for n :: "'a::len word"
  using word_less_inc [of n n] by simp

lemma later_mint_step:
  assumes "nextTokenId s \<noteq> - 1"
    and "ERC721_mint a (nextTokenId s) (s\<lparr>nextTokenId := nextTokenId s + 1\<rparr>) = Inr s1"
    and "later s1 s2"
  shows "later s (s2\<lparr>tokenAuras := (tokenAuras s2)(nextTokenId s := L),
             targetAddressToTokenId := (targetAddressToTokenId s2)(T := nextTokenId s),
             targetAddressMinted := (targetAddressMinted s2)(T := True),
             tokenToTargetAddress := (tokenToTargetAddress s2)(nextTokenId s := T),
             events := events s2 @ [AuraMinted a T (nextTokenId s) L]\<rparr>)"
proof -
  from assms(2) have s1: "s1 = s\<lparr>nextTokenId := nextTokenId s + 1,
      owners := (owners s)(nextTokenId s := a), events := events s @ [Transfer 0 a (nextTokenId s)]\<rparr>"
    and a: "a \<noteq> 0" and fresh: "owners s (nextTokenId s) = 0"
    by (auto dest!: ERC721_mint_Inr)
  have lt: "t < nextTokenId s \<Longrightarrow> t < nextTokenId s + 1" for t
    using assms(1) by (simp add: word_less_inc)
  from assms(3) obtain evs where
    n: "nextTokenId s + 1 \<le> nextTokenId s2"
    and o: "\<And>t. owners s1 t \<noteq> 0 \<Longrightarrow> owners s2 t = owners s1 t"
    and tg: "\<And>t. t < nextTokenId s + 1 \<Longrightarrow> tokenToTargetAddress s2 t = tokenToTargetAddress s t"
    and ev: "events s2 = events s @ Transfer 0 a (nextTokenId s) # evs"
    and au: "\<And>t. t < nextTokenId s + 1 \<Longrightarrow> tokenAuras s2 t = latest t evs (tokenAuras s t)"
    unfolding later_def s1 by auto
  show ?thesis
    unfolding later_def
  proof (intro conjI allI impI)
    show "nextTokenId s \<le> nextTokenId (s2\<lparr>tokenAuras := (tokenAuras s2)(nextTokenId s := L),
             targetAddressToTokenId := (targetAddressToTokenId s2)(T := nextTokenId s),
             targetAddressMinted := (targetAddressMinted s2)(T := True),
             tokenToTargetAddress := (tokenToTargetAddress s2)(nextTokenId s := T),
             events := events s2 @ [AuraMinted a T (nextTokenId s) L]\<rparr>)"
      using n word_le_inc [OF assms(1)] by simp
  next
    fix t assume "owners s t \<noteq> 0"
    then have "t \<noteq> nextTokenId s" using fresh by auto
    with \<open>owners s t \<noteq> 0\<close> o [of t] show "owners (s2\<lparr>tokenAuras := (tokenAuras s2)(nextTokenId s := L),
             targetAddressToTokenId := (targetAddressToTokenId s2)(T := nextTokenId s),
             targetAddressMinted := (targetAddressMinted s2)(T := True),
             tokenToTargetAddress := (tokenToTargetAddress s2)(nextTokenId s := T),
             events := events s2 @ [AuraMinted a T (nextTokenId s) L]\<rparr>) t = owners s t"
      by (simp add: s1)
  next
    fix t assume "t < nextTokenId s"
    with tg [of t] lt [of t] show "tokenToTargetAddress (s2\<lparr>tokenAuras := (tokenAuras s2)(nextTokenId s := L),
             targetAddressToTokenId := (targetAddressToTokenId s2)(T := nextTokenId s),
             targetAddressMinted := (targetAddressMinted s2)(T := True),
             tokenToTargetAddress := (tokenToTargetAddress s2)(nextTokenId s := T),
             events := events s2 @ [AuraMinted a T (nextTokenId s) L]\<rparr>) t = tokenToTargetAddress s t"
      by auto
  next
    show "\<exists>evs. events (s2\<lparr>tokenAuras := (tokenAuras s2)(nextTokenId s := L),
             targetAddressToTokenId := (targetAddressToTokenId s2)(T := nextTokenId s),
             targetAddressMinted := (targetAddressMinted s2)(T := True),
             tokenToTargetAddress := (tokenToTargetAddress s2)(nextTokenId s := T),
             events := events s2 @ [AuraMinted a T (nextTokenId s) L]\<rparr>) = events s @ evs \<and>
         (\<forall>t. t < nextTokenId s \<longrightarrow> tokenAuras (s2\<lparr>tokenAuras := (tokenAuras s2)(nextTokenId s := L),
             targetAddressToTokenId := (targetAddressToTokenId s2)(T := nextTokenId s),
             targetAddressMinted := (targetAddressMinted s2)(T := True),
             tokenToTargetAddress := (tokenToTargetAddress s2)(nextTokenId s := T),
             events := events s2 @ [AuraMinted a T (nextTokenId s) L]\<rparr>) t = latest t evs (tokenAuras s t))"
      apply (rule exI [of _ "Transfer 0 a (nextTokenId s) # evs @ [AuraMinted a T (nextTokenId s) L]"])
      using au lt by (auto simp: ev latest_append)
  qed
qed

lemma later_updateAura: "updateAura a t L s = Inr s' \<Longrightarrow> later s s'"
  by (drule updateAura_Inr) (simp add: later_def)

lemma later_setBaseImageURI:
  assumes "setBaseImageURI a b s = Inr s'"
  shows "later s s'"
proof -
  from assms have "s' = s\<lparr>baseImageURI := b\<rparr>"
    by (simp add: setBaseImageURI_Inr)
  then show ?thesis
    using later_refl [of s] by (simp add: later_def)
qed

lemma later_exec:
  assumes "exec a c s = Inr (x, s')" shows "later s s'"
  by (rule exec_preserves(3) [where R = later, OF _ _ _ _ _ assms])
     (auto intro: later_refl later_trans later_mint_step later_updateAura later_setBaseImageURI)

lemma later_check:
  assumes "checkOnERC721Received a r s = Inr s'" shows "later s s'"
  by (rule exec_preserves(2) [where R = later, OF _ _ _ _ _ assms])
     (auto intro: later_refl later_trans later_mint_step later_updateAura later_setBaseImageURI)

lemma later_run: "later s (run cs s)"
  by (rule exec_preserves(4) [where R = later])
     (auto intro: later_refl later_trans later_mint_step later_updateAura later_setBaseImageURI)


lemma run_append: "run (cs @ ds) s = run ds (run cs s)"
proof (induction cs arbitrary: s)
  case Nil
  show ?case by simp
next
  case (Cons p cs)
  obtain a c where "p = (a, c)" by (cases p)
  then show ?case by (simp add: Cons.IH)
qed

lemma tokenURI_existing:
  "t < nextTokenId s \<Longrightarrow>
   tokenURI t s =
     Inr (''data:application/json;base64,'' @
          Base64_encode (jsonHead t (tokenAuras s t) @
                         (baseImageURI s @ tokenAuras s t @ ''.png'') @
                         jsonTail (tokenAuras s t)
                           (''0x'' @ hexDigits 40 (ucast (tokenToTargetAddress s t)))))"
  by (simp add: tokenURI_def toHexString_def hex_fits Let_def)

lemma one_minted_eq:
  "one_minted =
     \<lparr> nextTokenId = 1,
       targetAddressToTokenId = (\<lambda>_. 0)(1 := 0),
       targetAddressMinted = (\<lambda>_. False)(1 := True),
       tokenToTargetAddress = (\<lambda>_. 0)(0 := 1),
       tokenAuras = (\<lambda>_. [])(0 := ''fire''),
       baseImageURI = ''https://x/'',
       owners = (\<lambda>_. 0)(0 := 5),
       owner = 9,
       events = [Transfer 0 5 0, AuraMinted 5 1 0 ''fire''] \<rparr>"
  by (simp add: one_minted_def mint.simps constructor_def ERC721_mint_def aura_defs)

lemma mint_sets_flag:
  assumes "mint a T L r s = Inr s'"
  shows "targetAddressMinted s' T"
  using assms by (cases rule: mint_cases) simp

subsection \<open>The hexadecimal rendering\<close>










subsection \<open>What a successful mint does\<close>



lemma check_plain:
  assumes "plain (Mint T L r)" and "checkOnERC721Received a r s = Inr s'"
  shows "s' = s"
  using assms by (cases r) (auto split: answer.splits)

lemma mint_effect:
  assumes "mint a T L r s = Inr s'"
  shows "owners s' (nextTokenId s) = a \<and> a \<noteq> 0 \<and>
         targetAddressMinted s' T \<and>
         targetAddressToTokenId s' T = nextTokenId s \<and>
         tokenToTargetAddress s' (nextTokenId s) = T \<and>
         tokenAuras s' (nextTokenId s) = L \<and>
         (\<exists>evs. events s' = events s @ evs @ [AuraMinted a T (nextTokenId s) L]) \<and>
         nextTokenId s < nextTokenId s' \<and>
         (plain (Mint T L r) \<longrightarrow> nextTokenId s' = nextTokenId s + 1)"
  using assms
proof (cases rule: mint_cases)
  case (1 s1 s2)
  from 1(4) have s1: "s1 = s\<lparr>nextTokenId := nextTokenId s + 1,
      owners := (owners s)(nextTokenId s := a), events := events s @ [Transfer 0 a (nextTokenId s)]\<rparr>"
    and a: "a \<noteq> 0"
    by (auto dest!: ERC721_mint_Inr)
  from 1(5) have l: "later s1 s2" by (rule later_check)
  then obtain evs where n: "nextTokenId s + 1 \<le> nextTokenId s2"
    and o: "owners s2 (nextTokenId s) = a"
    and ev: "events s2 = (events s @ [Transfer 0 a (nextTokenId s)]) @ evs"
    using a unfolding later_def s1 by auto
  have "nextTokenId s < nextTokenId s + 1"
    using 1(3) by (simp add: word_less_inc)
  with n have lt: "nextTokenId s < nextTokenId s2" by simp
  have pl: "nextTokenId s2 = nextTokenId s + 1" if "plain (Mint T L r)"
  proof -
    from check_plain [OF that 1(5)] have "s2 = s1" .
    then show ?thesis by (simp add: s1)
  qed
  have "events s' = events s @ (Transfer 0 a (nextTokenId s) # evs) @ [AuraMinted a T (nextTokenId s) L]"
    by (simp add: 1(6) ev)
  then have "\<exists>evs. events s' = events s @ evs @ [AuraMinted a T (nextTokenId s) L]"
    by blast
  with o a lt pl show ?thesis
    by (simp add: 1(6))
qed

subsection \<open>Sequences of plain calls\<close>

lemma registry_inv_mint:
  assumes inv: "registry_inv s" and p: "plain (Mint T L r)" and m: "mint a T L r s = Inr s'"
  shows "registry_inv s'"
  using m
proof (cases rule: mint_cases)
  case (1 s1 s2)
  from 1(4) have s1: "s1 = s\<lparr>nextTokenId := nextTokenId s + 1,
      owners := (owners s)(nextTokenId s := a), events := events s @ [Transfer 0 a (nextTokenId s)]\<rparr>"
    by (auto dest!: ERC721_mint_Inr)
  from check_plain [OF p 1(5)] have s2: "s2 = s1" .
  have lt: "(t < nextTokenId s + 1) = (t < nextTokenId s \<or> t = nextTokenId s)" for t
    using 1(3) by (auto simp: word_less_inc word_le_less_eq)
  from inv have a: "\<And>X. targetAddressMinted s X \<Longrightarrow>
            targetAddressToTokenId s X < nextTokenId s \<and>
            tokenToTargetAddress s (targetAddressToTokenId s X) = X"
    and b: "\<And>t. t < nextTokenId s \<Longrightarrow>
            targetAddressMinted s (tokenToTargetAddress s t) \<and>
            targetAddressToTokenId s (tokenToTargetAddress s t) = t"
    unfolding registry_inv_def by blast+
  have c: "tokenToTargetAddress s t \<noteq> T" if "t < nextTokenId s" for t
    using b [OF that] 1(1) by auto
  have d: "targetAddressToTokenId s X \<noteq> nextTokenId s" if "targetAddressMinted s X" for X
    using a [OF that] by auto
  have f: "nextTokenId s' = nextTokenId s + 1"
    "targetAddressMinted s' = (targetAddressMinted s)(T := True)"
    "targetAddressToTokenId s' = (targetAddressToTokenId s)(T := nextTokenId s)"
    "tokenToTargetAddress s' = (tokenToTargetAddress s)(nextTokenId s := T)"
    by (simp_all add: 1(6) s2 s1)
  have g1: "targetAddressToTokenId s' X < nextTokenId s' \<and>
            tokenToTargetAddress s' (targetAddressToTokenId s' X) = X"
    if "targetAddressMinted s' X" for X
  proof (cases "X = T")
    case True
    then show ?thesis by (simp add: f lt)
  next
    case False
    with that have "targetAddressMinted s X" by (simp add: f)
    with a [of X] d [of X] False show ?thesis by (simp add: f lt)
  qed
  have g2: "targetAddressMinted s' (tokenToTargetAddress s' t) \<and>
            targetAddressToTokenId s' (tokenToTargetAddress s' t) = t"
    if "t < nextTokenId s'" for t
  proof (cases "t = nextTokenId s")
    case True
    then show ?thesis by (simp add: f)
  next
    case False
    with that have "t < nextTokenId s" by (simp add: f lt)
    with b [of t] c [of t] False show ?thesis by (simp add: f)
  qed
  from g1 g2 show ?thesis
    unfolding registry_inv_def by blast
qed

lemma registry_inv_exec:
  assumes "registry_inv s" and "plain c" and "exec a c s = Inr (x, s')"
  shows "registry_inv s'"
proof (cases c)
  case (Mint T L r)
  with assms show ?thesis
    by (auto split: sum.splits intro: registry_inv_mint)
next
  case (UpdateAura t L)
  with assms(3) have "s' = s\<lparr>tokenAuras := (tokenAuras s)(t := L),
             events := events s @ [AuraUpdated t (tokenAuras s t) L]\<rparr>"
    by (auto split: sum.splits dest: updateAura_Inr)
  with assms(1) show ?thesis by (simp add: registry_inv_def)
next
  case (SetBaseImageURI b)
  with assms(3) have "s' = s\<lparr>baseImageURI := b\<rparr>"
    by (auto split: sum.splits dest: setBaseImageURI_Inr)
  with assms(1) show ?thesis by (simp add: registry_inv_def)
qed (use assms in \<open>auto split: sum.splits\<close>)

lemma registry_inv_run:
  "registry_inv s \<Longrightarrow> list_all (\<lambda>(a, c). plain c) cs \<Longrightarrow> registry_inv (run cs s)"
proof (induction cs arbitrary: s)
  case Nil
  then show ?case by simp
next
  case (Cons p cs)
  obtain a c where p: "p = (a, c)" by (cases p)
  show ?case
  proof (cases "exec a c s")
    case (Inl e)
    with Cons p show ?thesis by simp
  next
    case (Inr q)
    obtain x s' where q: "q = (x, s')" by (cases q)
    from Cons.prems p have "plain c" by simp
    with Cons.prems(1) Inr q have "registry_inv s'"
      by (auto intro: registry_inv_exec)
    with Cons p Inr q show ?thesis by simp
  qed
qed

lemma registry_inv_constructor: "registry_inv (constructor d b)"
  by (simp add: registry_inv_def constructor_def)

lemma reentered_eq:
  "reentered =
     \<lparr> nextTokenId = 2,
       targetAddressToTokenId = (\<lambda>_. 0)(7 := 0),
       targetAddressMinted = (\<lambda>_. False)(7 := True),
       tokenToTargetAddress = (\<lambda>_. 0)(1 := 7, 0 := 7),
       tokenAuras = (\<lambda>_. [])(1 := ''water'', 0 := ''fire''),
       baseImageURI = ''https://x/'',
       owners = (\<lambda>_. 0)(0 := 5, 1 := 5),
       owner = 9,
       events = [Transfer 0 5 0, Transfer 0 5 1, AuraMinted 5 7 1 ''water'',
                 AuraMinted 5 7 0 ''fire''] \<rparr>"
  by (simp add: reentered_def mint.simps constructor_def ERC721_mint_def aura_defs)

lemma reentered_not_registry_inv: "\<not> registry_inv reentered"
proof -
  have "(1::uint256) < nextTokenId reentered \<and>
        targetAddressToTokenId reentered (tokenToTargetAddress reentered 1) \<noteq> 1"
    by (simp add: reentered_eq)
  then show ?thesis
    unfolding registry_inv_def by blast
qed

section \<open>The claims\<close>

subsection \<open>The tier classifier\<close>

text \<open>
  C7: for every transaction count the classifier tests the thresholds from the highest
  down and the first match wins: \<^verbatim>\<open>fire\<close> from 500, \<^verbatim>\<open>water\<close> from 100 to 499,
  \<^verbatim>\<open>tide\<close> from 10 to 99, \<^verbatim>\<open>rock\<close> from 1 to 9, nothing below 1; in particular at the
  boundaries 0, 1, 9, 10, 99, 100, 499 and 500. The labels are the four constants of the
  contract.
\<close>

theorem getAuraType_thresholds:
  "(getAuraType txCount = Some ''fire'') = (500 \<le> txCount) \<and>
   (getAuraType txCount = Some ''water'') = (100 \<le> txCount \<and> txCount < 500) \<and>
   (getAuraType txCount = Some ''tide'') = (10 \<le> txCount \<and> txCount < 100) \<and>
   (getAuraType txCount = Some ''rock'') = (1 \<le> txCount \<and> txCount < 10) \<and>
   (getAuraType txCount = None) = (txCount < 1) \<and>
   getAuraType 0 = None \<and>
   getAuraType 1 = Some ''rock'' \<and> getAuraType 9 = Some ''rock'' \<and>
   getAuraType 10 = Some ''tide'' \<and> getAuraType 99 = Some ''tide'' \<and>
   getAuraType 100 = Some ''water'' \<and> getAuraType 499 = Some ''water'' \<and>
   getAuraType 500 = Some ''fire'' \<and>
   FIRE_WHALE = ''fire'' \<and> WAVE_RIDER = ''water'' \<and> TIDE_WATCHER = ''tide'' \<and>
   ROCK_HOLDER = ''rock''"
  by (simp add: getAuraType_def aura_defs)

subsection \<open>Unknown labels in the renderer\<close>

text \<open>
  The description of a label outside the valid set is \<^verbatim>\<open>Base Aura NFT\<close>, not
  \<^verbatim>\<open>Unknown\<close>: C9 as stated fails at the label \<^verbatim>\<open>gold\<close>.
\<close>

theorem unknown_aura_description_counterexample:
  "\<not> isValidAura ''gold'' \<and> getAuraDescription ''gold'' = ''Base Aura NFT'' \<and>
   getAuraDescription ''gold'' \<noteq> ''Unknown''"
  by (simp add: getAuraDescription_def aura_defs)

text \<open>
  C9, amended: for every label outside the valid set the renderer does not fail; the
  name and the rarity tier are \<^verbatim>\<open>Unknown\<close>, the description is the placeholder
  \<^verbatim>\<open>Base Aura NFT\<close>, and \<open>tokenURI\<close> of an existing token that carries such a label
  returns a document.
\<close>

theorem unknown_aura_placeholders:
  "\<not> isValidAura aura \<Longrightarrow>
     getAuraName aura = ''Unknown'' \<and>
     getAuraTier aura = ''Unknown'' \<and>
     getAuraDescription aura = ''Base Aura NFT'' \<and>
     (\<forall>t s. t < nextTokenId s \<and> tokenAuras s t = aura \<longrightarrow> (\<exists>uri. tokenURI t s = Inr uri))"
  by (simp add: getAuraName_def getAuraTier_def getAuraDescription_def isValidAura_def
        tokenURI_existing)

theorem unknown_aura_placeholders_witness:
  "\<not> isValidAura ''gold'' \<and>
   getAuraName ''gold'' = ''Unknown'' \<and>
   getAuraTier ''gold'' = ''Unknown'' \<and>
   getAuraDescription ''gold'' = ''Base Aura NFT'' \<and>
   (\<exists>uri. tokenURI 0 ((constructor 9 ''https://x/'')
              \<lparr>nextTokenId := 1, tokenAuras := (\<lambda>_. [])(0 := ''gold'')\<rparr>) = Inr uri)"
proof -
  have h: "\<not> isValidAura ''gold''"
    by (simp add: aura_defs)
  let ?s = "(constructor 9 ''https://x/'')\<lparr>nextTokenId := 1, tokenAuras := (\<lambda>_. [])(0 := ''gold'')\<rparr>"
  have "(0::uint256) < nextTokenId ?s \<and> tokenAuras ?s 0 = ''gold''"
    by simp
  with unknown_aura_placeholders [OF h] h show ?thesis
    by blast
qed

subsection \<open>updateAura\<close>

text \<open>
  C4: \<open>updateAura\<close> succeeds exactly when the caller is the owner of the existing token
  and the label is valid; it then overwrites the label, whatever the old one was, and
  emits \<^verbatim>\<open>AuraUpdated\<close> with the token, the old and the new label. A caller who is not
  the owner of an existing token gets \<^verbatim>\<open>Not the token owner\<close>, the owner with an
  invalid label gets \<^verbatim>\<open>Invalid aura type\<close>, and for a token that does not exist the
  ownership check itself reverts (the error of \<open>ownerOf\<close>); in each failure the state
  is unchanged.
\<close>

theorem updateAura_owner_gated:
  "((\<exists>s'. updateAura a t L s = Inr s') = (ownerOf t s = Inr a \<and> isValidAura L)) \<and>
   (ownerOf t s = Inr a \<and> isValidAura L \<longrightarrow>
      transact a (UpdateAura t L) s =
        (Inr RNone, s\<lparr>tokenAuras := (tokenAuras s)(t := L),
                        events := events s @ [AuraUpdated t (tokenAuras s t) L]\<rparr>)) \<and>
   (\<forall>tokenOwner. ownerOf t s = Inr tokenOwner \<and> tokenOwner \<noteq> a \<longrightarrow>
      transact a (UpdateAura t L) s = (Inl (Revert ''Not the token owner''), s)) \<and>
   (ownerOf t s = Inr a \<and> \<not> isValidAura L \<longrightarrow>
      transact a (UpdateAura t L) s = (Inl (Revert ''Invalid aura type''), s)) \<and>
   (owners s t = 0 \<longrightarrow>
      transact a (UpdateAura t L) s = (Inl (ERC721NonexistentToken t), s))"
  by (auto simp: updateAura_def transact_def ownerOf_def split: sum.splits)

theorem updateAura_owner_gated_witness:
  "ownerOf 0 one_minted = Inr 5 \<and> isValidAura ''rock'' \<and> \<not> isValidAura ''gold'' \<and>
   owners one_minted 1 = 0 \<and>
   (\<exists>s'. updateAura 5 0 ''rock'' one_minted = Inr s') \<and>
   transact 5 (UpdateAura 0 ''rock'') one_minted =
     (Inr RNone, one_minted\<lparr>tokenAuras := (tokenAuras one_minted)(0 := ''rock''),
                  events := events one_minted @ [AuraUpdated 0 ''fire'' ''rock'']\<rparr>) \<and>
   transact 6 (UpdateAura 0 ''rock'') one_minted = (Inl (Revert ''Not the token owner''), one_minted) \<and>
   transact 5 (UpdateAura 0 ''gold'') one_minted = (Inl (Revert ''Invalid aura type''), one_minted) \<and>
   transact 5 (UpdateAura 1 ''rock'') one_minted = (Inl (ERC721NonexistentToken 1), one_minted)"
proof -
  have o: "ownerOf 0 one_minted = Inr 5"
    by (simp add: one_minted_eq ownerOf_def)
  have v: "isValidAura ''rock''" and g: "\<not> isValidAura ''gold''"
    by (simp_all add: aura_defs)
  have n: "owners one_minted 1 = 0"
    by (simp add: one_minted_eq)
  have f: "tokenAuras one_minted 0 = ''fire''"
    by (simp add: one_minted_eq)
  note a = updateAura_owner_gated [of 5 0 "''rock''" one_minted]
  note b = updateAura_owner_gated [of 6 0 "''rock''" one_minted]
  note c = updateAura_owner_gated [of 5 0 "''gold''" one_minted]
  note d = updateAura_owner_gated [of 5 1 "''rock''" one_minted]
  from a o v have 1: "\<exists>s'. updateAura 5 0 ''rock'' one_minted = Inr s'" by blast
  from a o v f have 2: "transact 5 (UpdateAura 0 ''rock'') one_minted =
     (Inr RNone, one_minted\<lparr>tokenAuras := (tokenAuras one_minted)(0 := ''rock''),
                  events := events one_minted @ [AuraUpdated 0 ''fire'' ''rock'']\<rparr>)" by simp
  from b o have 3: "transact 6 (UpdateAura 0 ''rock'') one_minted = (Inl (Revert ''Not the token owner''), one_minted)"
    by simp
  from c o g have 4: "transact 5 (UpdateAura 0 ''gold'') one_minted = (Inl (Revert ''Invalid aura type''), one_minted)"
    by blast
  from d n have 5: "transact 5 (UpdateAura 1 ''rock'') one_minted = (Inl (ERC721NonexistentToken 1), one_minted)"
    by blast
  from o v g n 1 2 3 4 5 show ?thesis by blast
qed

subsection \<open>A second mint for the same target\<close>

text \<open>
  C3: when the target address is marked as minted, and so in every state that follows a
  successful \<open>mint\<close> for it, \<open>mint\<close> for that target fails with \<^verbatim>\<open>This address already
  has an Aura NFT\<close>, for every caller, label and receiver, and the state is unchanged.
\<close>

theorem mint_duplicate_rejected:
  "(hasMinted T s \<longrightarrow>
      transact a (Mint T L r) s =
        (Inl (Revert ''This address already has an Aura NFT''), s)) \<and>
   (\<forall>a0 L0 r0 s0 x s1 cs.
      exec a0 (Mint T L0 r0) s0 = Inr (x, s1) \<and> s = run cs s1 \<longrightarrow>
      transact a (Mint T L r) s =
        (Inl (Revert ''This address already has an Aura NFT''), s))"
proof -
  have dup: "transact a (Mint T L r) s =
        (Inl (Revert ''This address already has an Aura NFT''), s)"
    if "targetAddressMinted s T" for s
    using that by (simp add: transact_def mint.simps)
  have "targetAddressMinted (run cs s1) T"
    if "exec a0 (Mint T L0 r0) s0 = Inr (x, s1)" for a0 L0 r0 s0 x s1 cs
  proof -
    from that have "targetAddressMinted s1 T"
      by (auto split: sum.splits dest: mint_sets_flag)
    with minted_kept_run [of s1 cs] show ?thesis
      by (simp add: minted_kept_def)
  qed
  with dup show ?thesis
    by (auto simp: hasMinted_def)
qed

theorem mint_duplicate_rejected_witness:
  "hasMinted 1 one_minted \<and>
   exec 5 (Mint 1 ''fire'' NoCode) (constructor 9 ''https://x/'') = Inr (RNone, one_minted) \<and>
   one_minted = run [] one_minted \<and>
   transact 6 (Mint 1 ''water'' NoCode) one_minted =
        (Inl (Revert ''This address already has an Aura NFT''), one_minted)"
proof -
  have h: "hasMinted 1 one_minted"
    by (simp add: one_minted_eq hasMinted_def)
  have e: "exec 5 (Mint 1 ''fire'' NoCode) (constructor 9 ''https://x/'') = Inr (RNone, one_minted)"
    by (simp add: one_minted_def mint.simps constructor_def ERC721_mint_def aura_defs)
  have r: "one_minted = run [] one_minted"
    by simp
  from mint_duplicate_rejected [of 1 one_minted 6 "''water''" NoCode] h e r
  show ?thesis by blast
qed

subsection \<open>The lookups by token ID\<close>

text \<open>
  C5: \<open>getTargetAddress\<close>, \<open>getAura\<close> and \<open>tokenURI\<close> fail with \<^verbatim>\<open>Token does not
  exist\<close> exactly when the token ID is not below the counter; below it each succeeds and
  leaves the state as it is. In every state reached from the constructor the ledger has
  an owner for a token exactly when its ID is below the counter.
\<close>

theorem lookups_exist_below_counter:
  "(getTargetAddress t s = Inl (Revert ''Token does not exist'')) = (nextTokenId s \<le> t) \<and>
   (getAura t s = Inl (Revert ''Token does not exist'')) = (nextTokenId s \<le> t) \<and>
   (tokenURI t s = Inl (Revert ''Token does not exist'')) = (nextTokenId s \<le> t) \<and>
   (t < nextTokenId s \<longrightarrow>
      transact a (GetTargetAddress t) s = (Inr (RAddress (tokenToTargetAddress s t)), s) \<and>
      transact a (GetAura t) s = (Inr (RString (tokenAuras s t)), s) \<and>
      (\<exists>uri. transact a (TokenURI t) s = (Inr (RString uri), s))) \<and>
   (nextTokenId s \<le> t \<longrightarrow>
      transact a (GetTargetAddress t) s = (Inl (Revert ''Token does not exist''), s) \<and>
      transact a (GetAura t) s = (Inl (Revert ''Token does not exist''), s) \<and>
      transact a (TokenURI t) s = (Inl (Revert ''Token does not exist''), s)) \<and>
   (\<forall>d b cs. s = run cs (constructor d b) \<longrightarrow>
      (\<exists>tokenOwner. ownerOf t s = Inr tokenOwner) = (t < nextTokenId s))"
proof -
  have 1: "(getTargetAddress t s = Inl (Revert ''Token does not exist'')) = (nextTokenId s \<le> t)"
    by (simp add: getTargetAddress_def not_less)
  have 2: "(getAura t s = Inl (Revert ''Token does not exist'')) = (nextTokenId s \<le> t)"
    by (simp add: getAura_def not_less)
  have 3: "(tokenURI t s = Inl (Revert ''Token does not exist'')) = (nextTokenId s \<le> t)"
  proof (cases "t < nextTokenId s")
    case True
    then show ?thesis by (simp add: tokenURI_existing not_le)
  next
    case False
    then show ?thesis by (simp add: tokenURI_def not_less)
  qed
  have 4: "transact a (GetTargetAddress t) s = (Inr (RAddress (tokenToTargetAddress s t)), s) \<and>
      transact a (GetAura t) s = (Inr (RString (tokenAuras s t)), s) \<and>
      (\<exists>uri. transact a (TokenURI t) s = (Inr (RString uri), s))"
    if "t < nextTokenId s"
    using that by (simp add: transact_def getTargetAddress_def getAura_def tokenURI_existing)
  have 5: "transact a (GetTargetAddress t) s = (Inl (Revert ''Token does not exist''), s) \<and>
      transact a (GetAura t) s = (Inl (Revert ''Token does not exist''), s) \<and>
      transact a (TokenURI t) s = (Inl (Revert ''Token does not exist''), s)"
    if "nextTokenId s \<le> t"
    using that by (simp add: transact_def getTargetAddress_def getAura_def tokenURI_def not_less)
  have 6: "(\<exists>tokenOwner. ownerOf t s = Inr tokenOwner) = (t < nextTokenId s)"
    if "s = run cs (constructor d b)" for d b cs
  proof -
    from that have "ledger_inv s"
      by (simp add: ledger_inv_run ledger_inv_constructor)
    then have "(owners s t \<noteq> 0) = (t < nextTokenId s)"
      by (simp add: ledger_inv_def)
    then show ?thesis
      by (auto simp: ownerOf_def)
  qed
  from 1 2 3 4 5 6 show ?thesis by blast
qed

theorem lookups_exist_below_counter_witness:
  "(0::uint256) < nextTokenId one_minted \<and> nextTokenId one_minted \<le> 1 \<and>
   one_minted = run [(5, Mint 1 ''fire'' NoCode)] (constructor 9 ''https://x/'') \<and>
   transact 6 (GetTargetAddress 0) one_minted = (Inr (RAddress 1), one_minted) \<and>
   transact 6 (GetAura 0) one_minted = (Inr (RString ''fire''), one_minted) \<and>
   (\<exists>uri. transact 6 (TokenURI 0) one_minted = (Inr (RString uri), one_minted)) \<and>
   transact 6 (GetTargetAddress 1) one_minted = (Inl (Revert ''Token does not exist''), one_minted) \<and>
   transact 6 (GetAura 1) one_minted = (Inl (Revert ''Token does not exist''), one_minted) \<and>
   transact 6 (TokenURI 1) one_minted = (Inl (Revert ''Token does not exist''), one_minted) \<and>
   (\<exists>tokenOwner. ownerOf 0 one_minted = Inr tokenOwner) \<and>
   \<not> (\<exists>tokenOwner. ownerOf 1 one_minted = Inr tokenOwner)"
proof -
  have lt: "(0::uint256) < nextTokenId one_minted" and le: "nextTokenId one_minted \<le> 1"
    and nlt: "\<not> (1::uint256) < nextTokenId one_minted"
    by (simp_all add: one_minted_eq)
  have r: "one_minted = run [(5, Mint 1 ''fire'' NoCode)] (constructor 9 ''https://x/'')"
    by (simp add: one_minted_def)
  have f: "tokenToTargetAddress one_minted 0 = 1" "tokenAuras one_minted 0 = ''fire''"
    by (simp_all add: one_minted_eq)
  note a = lookups_exist_below_counter [of 0 one_minted 6]
  note b = lookups_exist_below_counter [of 1 one_minted 6]
  from a lt f have 1: "transact 6 (GetTargetAddress 0) one_minted = (Inr (RAddress 1), one_minted) \<and>
   transact 6 (GetAura 0) one_minted = (Inr (RString ''fire''), one_minted) \<and>
   (\<exists>uri. transact 6 (TokenURI 0) one_minted = (Inr (RString uri), one_minted))"
    by simp
  from b le have 2: "transact 6 (GetTargetAddress 1) one_minted = (Inl (Revert ''Token does not exist''), one_minted) \<and>
   transact 6 (GetAura 1) one_minted = (Inl (Revert ''Token does not exist''), one_minted) \<and>
   transact 6 (TokenURI 1) one_minted = (Inl (Revert ''Token does not exist''), one_minted)"
    by blast
  from a r lt have 3: "\<exists>tokenOwner. ownerOf 0 one_minted = Inr tokenOwner"
    by blast
  from b r nlt have 4: "\<not> (\<exists>tokenOwner. ownerOf 1 one_minted = Inr tokenOwner)"
    by blast
  from lt le r 1 2 3 4 show ?thesis by blast
qed

subsection \<open>setBaseImageURI\<close>

text \<open>
  C10: when the administrator sets a new image base, only that field of the state
  changes, and \<open>tokenURI\<close> of every token below the counter is the document it was with
  the new base in the image reference: the head and the tail of the document (name,
  description, tier attributes, target address) are those of the state before. Any
  other caller is refused and the state is unchanged.
\<close>

theorem setBaseImageURI_retroactive:
  "(owner s = a \<longrightarrow>
      transact a (SetBaseImageURI newBaseURI) s = (Inr RNone, s\<lparr>baseImageURI := newBaseURI\<rparr>) \<and>
      (\<forall>t. t < nextTokenId s \<longrightarrow>
         tokenURI t s =
           Inr (''data:application/json;base64,'' @
                Base64_encode (jsonHead t (tokenAuras s t) @
                  (baseImageURI s @ tokenAuras s t @ ''.png'') @
                  jsonTail (tokenAuras s t)
                    (''0x'' @ hexDigits 40 (ucast (tokenToTargetAddress s t))))) \<and>
         tokenURI t (s\<lparr>baseImageURI := newBaseURI\<rparr>) =
           Inr (''data:application/json;base64,'' @
                Base64_encode (jsonHead t (tokenAuras s t) @
                  (newBaseURI @ tokenAuras s t @ ''.png'') @
                  jsonTail (tokenAuras s t)
                    (''0x'' @ hexDigits 40 (ucast (tokenToTargetAddress s t))))))) \<and>
   (owner s \<noteq> a \<longrightarrow>
      transact a (SetBaseImageURI newBaseURI) s = (Inl (OwnableUnauthorizedAccount a), s))"
  by (simp add: transact_def setBaseImageURI_def tokenURI_existing)


theorem setBaseImageURI_retroactive_witness:
  "owner one_minted = 9 \<and> (0::uint256) < nextTokenId one_minted \<and> owner one_minted \<noteq> 5 \<and>
   transact 9 (SetBaseImageURI ''ipfs://y/'') one_minted =
     (Inr RNone, one_minted\<lparr>baseImageURI := ''ipfs://y/''\<rparr>) \<and>
   tokenURI 0 one_minted =
     Inr (''data:application/json;base64,'' @
          Base64_encode (jsonHead 0 ''fire'' @ (''https://x/'' @ ''fire'' @ ''.png'') @
            jsonTail ''fire'' (''0x'' @ hexDigits 40 (ucast (1::address))))) \<and>
   tokenURI 0 (one_minted\<lparr>baseImageURI := ''ipfs://y/''\<rparr>) =
     Inr (''data:application/json;base64,'' @
          Base64_encode (jsonHead 0 ''fire'' @ (''ipfs://y/'' @ ''fire'' @ ''.png'') @
            jsonTail ''fire'' (''0x'' @ hexDigits 40 (ucast (1::address))))) \<and>
   transact 5 (SetBaseImageURI ''ipfs://y/'') one_minted =
     (Inl (OwnableUnauthorizedAccount 5), one_minted)"
proof -
  have o: "owner one_minted = 9" and lt: "(0::uint256) < nextTokenId one_minted"
    and no: "owner one_minted \<noteq> 5"
    by (simp_all add: one_minted_eq)
  have f: "tokenAuras one_minted 0 = ''fire''" "tokenToTargetAddress one_minted 0 = 1"
    "baseImageURI one_minted = ''https://x/''"
    by (simp_all add: one_minted_eq)
  note a = setBaseImageURI_retroactive [of one_minted 9 "''ipfs://y/''"]
  note b = setBaseImageURI_retroactive [of one_minted 5 "''ipfs://y/''"]
  from a o have 1: "transact 9 (SetBaseImageURI ''ipfs://y/'') one_minted =
     (Inr RNone, one_minted\<lparr>baseImageURI := ''ipfs://y/''\<rparr>)"
    by blast
  from a o lt have 2: "tokenURI 0 one_minted =
           Inr (''data:application/json;base64,'' @
                Base64_encode (jsonHead 0 (tokenAuras one_minted 0) @
                  (baseImageURI one_minted @ tokenAuras one_minted 0 @ ''.png'') @
                  jsonTail (tokenAuras one_minted 0)
                    (''0x'' @ hexDigits 40 (ucast (tokenToTargetAddress one_minted 0))))) \<and>
         tokenURI 0 (one_minted\<lparr>baseImageURI := ''ipfs://y/''\<rparr>) =
           Inr (''data:application/json;base64,'' @
                Base64_encode (jsonHead 0 (tokenAuras one_minted 0) @
                  (''ipfs://y/'' @ tokenAuras one_minted 0 @ ''.png'') @
                  jsonTail (tokenAuras one_minted 0)
                    (''0x'' @ hexDigits 40 (ucast (tokenToTargetAddress one_minted 0)))))"
    by blast
  from b no have 3: "transact 5 (SetBaseImageURI ''ipfs://y/'') one_minted =
     (Inl (OwnableUnauthorizedAccount 5), one_minted)"
    by blast
  from o lt no 1 2 [unfolded f] 3 show ?thesis
    by blast
qed

subsection \<open>mint\<close>




subsection \<open>The lifetime of a token\<close>

text \<open>
  Once a successful \<open>mint\<close> for target \<open>T\<close> with label \<open>L\<close> has returned, whatever
  calls follow, \<open>getTargetAddress\<close> of the new token returns \<open>T\<close> and \<open>getAura\<close>
  returns the label of the latest \<^verbatim>\<open>AuraUpdated\<close> event emitted for the token since the
  return, or \<open>L\<close> when there was none. This leaves out what happened to the token
  before \<open>mint\<close> returned.
\<close>

lemma after_mint_target_and_label:
  assumes "exec a (Mint T L r) s = Inr (x, s1)"
  shows "getTargetAddress (nextTokenId s) (run cs s1) = Inr T \<and>
         getAura (nextTokenId s) (run cs s1) =
           Inr (latest (nextTokenId s) (drop (length (events s1)) (events (run cs s1))) L) \<and>
         (\<forall>a' L'. ownerOf (nextTokenId s) (run cs s1) = Inr a' \<and> isValidAura L' \<longrightarrow>
            getAura (nextTokenId s)
              (run (cs @ [(a', UpdateAura (nextTokenId s) L')]) s1) = Inr L')"
proof -
  from assms have m: "mint a T L r s = Inr s1"
    by (auto split: sum.splits)
  note e = mint_effect [OF m]
  from later_run [of s1 cs] obtain evs where
    n: "nextTokenId s1 \<le> nextTokenId (run cs s1)"
    and tg: "\<And>t. t < nextTokenId s1 \<Longrightarrow>
               tokenToTargetAddress (run cs s1) t = tokenToTargetAddress s1 t"
    and ev: "events (run cs s1) = events s1 @ evs"
    and au: "\<And>t. t < nextTokenId s1 \<Longrightarrow>
               tokenAuras (run cs s1) t = latest t evs (tokenAuras s1 t)"
    unfolding later_def by blast
  from e have lt: "nextTokenId s < nextTokenId s1" by simp
  with n have lt': "nextTokenId s < nextTokenId (run cs s1)" by simp
  from ev have d: "drop (length (events s1)) (events (run cs s1)) = evs" by simp
  have u: "getAura (nextTokenId s)
              (run (cs @ [(a', UpdateAura (nextTokenId s) L')]) s1) = Inr L'"
    if "ownerOf (nextTokenId s) (run cs s1) = Inr a'" and "isValidAura L'" for a' L'
    using that lt' by (simp add: run_append updateAura_def getAura_def)
  from tg [OF lt] au [OF lt] e lt' u show ?thesis
    by (simp add: getTargetAddress_def getAura_def d)
qed

lemma after_mint_target_and_label_example:
  "exec 5 (Mint 1 ''fire'' NoCode) (constructor 9 ''https://x/'') = Inr (RNone, one_minted) \<and>
   getTargetAddress 0
     (run [(5, UpdateAura 0 ''water''), (6, UpdateAura 0 ''rock''),
           (5, UpdateAura 0 ''gold''), (6, Mint 2 ''tide'' NoCode),
           (9, SetBaseImageURI ''ipfs://y/'')] one_minted) = Inr 1 \<and>
   getAura 0
     (run [(5, UpdateAura 0 ''water''), (6, UpdateAura 0 ''rock''),
           (5, UpdateAura 0 ''gold''), (6, Mint 2 ''tide'' NoCode),
           (9, SetBaseImageURI ''ipfs://y/'')] one_minted) = Inr ''water'' \<and>
   ownerOf 0
     (run [(5, UpdateAura 0 ''water''), (6, UpdateAura 0 ''rock''),
           (5, UpdateAura 0 ''gold''), (6, Mint 2 ''tide'' NoCode),
           (9, SetBaseImageURI ''ipfs://y/'')] one_minted) = Inr 5 \<and>
   isValidAura ''rock'' \<and>
   getAura 0
     (run ([(5, UpdateAura 0 ''water''), (6, UpdateAura 0 ''rock''),
            (5, UpdateAura 0 ''gold''), (6, Mint 2 ''tide'' NoCode),
            (9, SetBaseImageURI ''ipfs://y/'')] @ [(5, UpdateAura 0 ''rock'')]) one_minted) =
     Inr ''rock''"
proof -
  let ?cs = "[(5, UpdateAura 0 ''water''), (6, UpdateAura 0 ''rock''),
              (5, UpdateAura 0 ''gold''), (6, Mint 2 ''tide'' NoCode),
              (9, SetBaseImageURI ''ipfs://y/'')] :: (address \<times> call) list"
  have e: "exec 5 (Mint 1 ''fire'' NoCode) (constructor 9 ''https://x/'') = Inr (RNone, one_minted)"
    by (simp add: one_minted_def mint.simps constructor_def ERC721_mint_def aura_defs)
  have n: "nextTokenId (constructor 9 ''https://x/'') = 0"
    by (simp add: constructor_def)
  have l: "latest 0 (drop (length (events one_minted)) (events (run ?cs one_minted))) ''fire'' =
           ''water''"
    by (simp add: one_minted_eq mint.simps updateAura_def ownerOf_def setBaseImageURI_def
        ERC721_mint_def aura_defs)
  have o: "ownerOf 0 (run ?cs one_minted) = Inr 5"
    by (simp add: one_minted_eq mint.simps updateAura_def ownerOf_def setBaseImageURI_def
        ERC721_mint_def aura_defs)
  have v: "isValidAura ''rock''"
    by (simp add: aura_defs)
  note t = after_mint_target_and_label [OF e, of ?cs, unfolded n l]
  from t o v have "getAura 0 (run (?cs @ [(5, UpdateAura 0 ''rock'')]) one_minted) = Inr ''rock''"
    by blast
  with t e o v show ?thesis
    by blast
qed

lemma hooked_eq:
  "hooked =
     \<lparr> nextTokenId = 1,
       targetAddressToTokenId = (\<lambda>_. 0)(1 := 0),
       targetAddressMinted = (\<lambda>_. False)(1 := True),
       tokenToTargetAddress = (\<lambda>_. 0)(0 := 1),
       tokenAuras = (\<lambda>_. [])(0 := ''fire''),
       baseImageURI = ''https://x/'',
       owners = (\<lambda>_. 0)(0 := 5),
       owner = 9,
       events = [Transfer 0 5 0, AuraUpdated 0 [] ''rock'', AuraMinted 5 1 0 ''fire''] \<rparr>"
  by (simp add: hooked_def mint.simps constructor_def ERC721_mint_def updateAura_def
      ownerOf_def aura_defs)

text \<open>
  C6 fails on the code: \<open>mint\<close> calls \<^verbatim>\<open>_safeMint\<close> before it writes the label, so
  the hook of the calling contract, which owns the new token already, can set its
  label with a successful \<open>updateAura\<close>; \<open>mint\<close> then overwrites it. After that one
  transaction the log shows \<^verbatim>\<open>AuraUpdated\<close> for token 0 with the new label
  \<^verbatim>\<open>rock\<close> and no later update (the call succeeds in the state the hook runs in,
  the one after the ledger entry), yet \<open>getAura\<close> returns \<^verbatim>\<open>fire\<close>: the label is not
  the one passed to the most recent successful \<open>updateAura\<close>. For the calls that
  follow the return of \<open>mint\<close> the claim holds (\<open>after_mint_target_and_label\<close>).
\<close>

theorem hook_update_overwritten:
  "events hooked = [Transfer 0 5 0, AuraUpdated 0 [] ''rock'', AuraMinted 5 1 0 ''fire''] \<and>
   latest 0 (events hooked) [] = ''rock'' \<and>
   fst (transact 5 (UpdateAura 0 ''rock'')
          ((constructor 9 ''https://x/'')
             \<lparr>nextTokenId := 1, owners := (\<lambda>_. 0)(0 := 5), events := [Transfer 0 5 0]\<rparr>)) =
     Inr RNone \<and>
   getAura 0 hooked = Inr ''fire'' \<and>
   getTargetAddress 0 hooked = Inr 1 \<and>
   ownerOf 0 hooked = Inr 5 \<and>
   nextTokenId hooked = 1"
  by (simp add: hooked_eq getAura_def getTargetAddress_def ownerOf_def transact_def
      updateAura_def constructor_def aura_defs)

subsection \<open>The rendered document\<close>



subsection \<open>The two mappings under a re-entrant mint\<close>

text \<open>
  C2 fails on the code: \<open>mint\<close> calls \<^verbatim>\<open>_safeMint\<close> before it marks the target as
  minted, and the hook of a calling contract can mint for the same target again. After
  that one transaction tokens 0 and 1 both carry target address 7, while target 7 maps
  to token 0 only: the mappings are not inverse to each other. On sequences of plain
  calls the invariant holds (\<open>registry_inv_run\<close>), and a target once marked stays
  marked with the same token (\<open>minted_kept_run\<close>).
\<close>

theorem reentrant_mint_breaks_inverse:
  "nextTokenId reentered = 2 \<and>
   hasMinted 7 reentered \<and>
   getTokenByTargetAddress 7 reentered = Inr 0 \<and>
   getTargetAddress 0 reentered = Inr 7 \<and>
   getTargetAddress 1 reentered = Inr 7 \<and>
   ownerOf 0 reentered = Inr 5 \<and> ownerOf 1 reentered = Inr 5 \<and>
   getAura 0 reentered = Inr ''fire'' \<and> getAura 1 reentered = Inr ''water''"
  by (simp add: reentered_eq hasMinted_def getTokenByTargetAddress_def getTargetAddress_def
        ownerOf_def getAura_def)

end
